theory Spec2Isabelle
  imports Main "HOL-Library.Word" "HOL-Library.Char_ord" "HOL-Library.List_Lexorder"
begin

unbundle bit_operations_syntax

section \<open>Common Go notions\<close>

text \<open>
  A Go call either returns or panics. The two run-time panics that the modelled code can
  raise are an index out of range on a string and a nil pointer dereference.
\<close>

datatype panic = IndexOutOfRange | NilDereference

datatype 'a outcome = Panics panic | Returns 'a

text \<open>
  Error values. \<open>EPERM\<close>, \<open>EIO\<close> and \<open>ENOENT\<close> are the errno values of the fuse
  package, \<open>ErrorsNew\<close> is \<^verbatim>\<open>errors.New\<close>, the two \<open>Err...\<close> constructors are the errors
  of bolt that bucket creation returns, and \<open>OtherError\<close> stands for any error that an
  external package (bolt, os, json, the rest of the store package) hands back.
\<close>

datatype error =
    EPERM
  | EIO
  | ENOENT
  | ErrorsNew string
  | ErrBucketNameRequired
  | ErrIncompatibleValue
  | OtherError string

section \<open>The store package: playlists (bolt database and playlist directories)\<close>

subsection \<open>The bolt database\<close>

text \<open>
  A bolt bucket is an ordered collection of keys; a key holds either a value (a byte
  string) or a nested bucket. Go strings and byte slices are byte sequences, which is what
  \<^typ>\<open>string\<close> is. The list of a bucket is the order in which a cursor visits the
  keys; bolt keeps it sorted by byte-wise comparison and free of duplicates
  (\<open>bucket_ok\<close>).
\<close>

datatype node = Leaf string | Sub "(string \<times> node) list"

type_synonym bucket = "(string \<times> node) list"

definition bucket_ok :: "bucket \<Rightarrow> bool" where
  "bucket_ok b = sorted_wrt (<) (map fst b)"

text \<open>\<^verbatim>\<open>b.Get(key)\<close>: nil when the key is absent or holds a nested bucket.\<close>

definition Bucket_Get :: "bucket \<Rightarrow> string \<Rightarrow> string option" where
  "Bucket_Get b k = (case map_of b k of Some (Leaf v) \<Rightarrow> Some v | _ \<Rightarrow> None)"

text \<open>\<^verbatim>\<open>b.Bucket(name)\<close>: nil when the key is absent or holds a value.\<close>

definition Bucket_Bucket :: "bucket \<Rightarrow> string \<Rightarrow> bucket option" where
  "Bucket_Bucket b k = (case map_of b k of Some (Sub c) \<Rightarrow> Some c | _ \<Rightarrow> None)"

text \<open>Insertion of a key at its place in the key order (replacing the key if present).\<close>

fun bucket_put :: "string \<Rightarrow> node \<Rightarrow> bucket \<Rightarrow> bucket" where
  "bucket_put k v [] = [(k, v)]"
| "bucket_put k v ((k', v') # rest) =
     (if k < k' then (k, v) # (k', v') # rest
      else if k = k' then (k, v) # rest
      else (k', v') # bucket_put k v rest)"

text \<open>
  \<^verbatim>\<open>b.CreateBucketIfNotExists(key)\<close>: fails on an empty name and on a key that holds a
  value; returns the existing nested bucket, or creates an empty one. The result is the
  parent bucket after the call and the nested bucket.
\<close>

definition CreateBucketIfNotExists :: "bucket \<Rightarrow> string \<Rightarrow> error + (bucket \<times> bucket)" where
  "CreateBucketIfNotExists b key =
     (if key = [] then Inl ErrBucketNameRequired
      else case map_of b key of
          Some (Sub c) \<Rightarrow> Inr (b, c)
        | Some (Leaf _) \<Rightarrow> Inl ErrIncompatibleValue
        | None \<Rightarrow> Inr (bucket_put key (Sub []) b, []))"

subsection \<open>The environment of the store functions\<close>

text \<open>
  Modelled from the spec: the type \<^verbatim>\<open>playlistmgr.PlaylistFile\<close> is declared outside the
  given sources; the spec gives the value of a playlist record as \<^verbatim>\<open>{ path: string }\<close>.
\<close>

record PlaylistFile =
  Path :: string

record FileInfo =
  fi_Name :: string
  fi_IsDir :: bool
  fi_Size :: "64 word"

text \<open>
  What the functions of the store package get from outside: whether \<^verbatim>\<open>bolt.Open\<close> fails,
  whether the commit of an update transaction fails, \<^verbatim>\<open>json.Unmarshal\<close> into a
  \<^verbatim>\<open>PlaylistFile\<close>, \<^verbatim>\<open>os.Stat\<close>, \<^verbatim>\<open>ioutil.ReadDir\<close>, and \<^verbatim>\<open>getCompatibleString\<close>, a function
  of the store package that is not among the given sources.
\<close>

record store_env =
  bolt_Open :: "error option"
  tx_Commit :: "error option"
  json_Unmarshal :: "string \<Rightarrow> error + PlaylistFile"
  os_Stat :: "string \<Rightarrow> error + FileInfo"
  ioutil_ReadDir :: "string \<Rightarrow> FileInfo list \<times> error option"
  getCompatibleString :: "string \<Rightarrow> string"

subsection \<open>GetPlaylistFilePath\<close>

text \<open>The function passed to \<^verbatim>\<open>db.View\<close>.\<close>

definition GetPlaylistFilePath_view :: "store_env \<Rightarrow> bucket \<Rightarrow> string \<Rightarrow> string \<Rightarrow> error + string" where
  "GetPlaylistFilePath_view E db playlist song =
     (case Bucket_Bucket db ''Playlists'' of
        None \<Rightarrow> Inl (ErrorsNew ''No playlists.'')
      | Some root \<Rightarrow>
          (case Bucket_Bucket root playlist of
             None \<Rightarrow> Inl (ErrorsNew ''Playlist not exists.'')
           | Some playlistBucket \<Rightarrow>
               (case Bucket_Get playlistBucket song of
                  None \<Rightarrow> Inl (ErrorsNew ''Song not found.'')
                | Some songJson \<Rightarrow>
                    (case json_Unmarshal E songJson of
                       Inl _ \<Rightarrow> Inl (ErrorsNew ''Cannot open song.'')
                     | Inr file \<Rightarrow> Inr (Path file)))))"

definition GetPlaylistFilePath ::
  "store_env \<Rightarrow> bucket \<Rightarrow> string \<Rightarrow> string \<Rightarrow> string \<Rightarrow> (string \<times> error option) outcome" where
  "GetPlaylistFilePath E db playlist song mPoint =
     (case bolt_Open E of
        Some err \<Rightarrow> Returns ('''', Some err)
      | None \<Rightarrow>
          (case GetPlaylistFilePath_view E db playlist song of
             Inr returnValue \<Rightarrow> Returns (returnValue, None)
           | Inl _ \<Rightarrow>
               if mPoint = [] then Panics IndexOutOfRange
               else
                 let mPoint1 = (if last mPoint \<noteq> CHR ''/'' then mPoint @ ''/'' else mPoint);
                     fullPath = mPoint1 @ ''playlists/'' @ playlist @ ''/'' @ song
                 in (case os_Stat E fullPath of
                       Inl _ \<Rightarrow> Returns ('''', Some (ErrorsNew ''File not exists.''))
                     | Inr src \<Rightarrow>
                         if fi_IsDir src then Returns ('''', Some (ErrorsNew ''File not exists.''))
                         else Returns (fullPath, None))))"

subsection \<open>ListPlaylists and ListPlaylistSongs\<close>

datatype DirentType = DT_Unknown | DT_File | DT_Dir

record Dirent =
  Inode :: "64 word"
  Type :: DirentType
  Name :: string

text \<open>The cursor loop of \<^verbatim>\<open>ListPlaylists\<close>: a directory entry for every key without a value.\<close>

fun ListPlaylists_loop :: "bucket \<Rightarrow> Dirent list \<Rightarrow> Dirent list" where
  "ListPlaylists_loop [] a = a"
| "ListPlaylists_loop ((k, v) # rest) a =
     (case v of
        Sub _ \<Rightarrow> ListPlaylists_loop rest (a @ [\<lparr>Inode = 0, Type = DT_Dir, Name = k\<rparr>])
      | Leaf _ \<Rightarrow> ListPlaylists_loop rest a)"

definition ListPlaylists :: "store_env \<Rightarrow> bucket \<Rightarrow> Dirent list \<times> error option" where
  "ListPlaylists E db =
     (case bolt_Open E of
        Some err \<Rightarrow> ([], Some err)
      | None \<Rightarrow>
          (case Bucket_Bucket db ''Playlists'' of
             None \<Rightarrow> ([], None)
           | Some b \<Rightarrow> (ListPlaylists_loop b [], None)))"

text \<open>The cursor loop of \<^verbatim>\<open>ListPlaylistSongs\<close>: a file entry for every key with a value.\<close>

fun ListPlaylistSongs_loop :: "bucket \<Rightarrow> Dirent list \<Rightarrow> Dirent list" where
  "ListPlaylistSongs_loop [] a = a"
| "ListPlaylistSongs_loop ((k, v) # rest) a =
     (case v of
        Leaf _ \<Rightarrow> ListPlaylistSongs_loop rest (a @ [\<lparr>Inode = 0, Type = DT_File, Name = k\<rparr>])
      | Sub _ \<Rightarrow> ListPlaylistSongs_loop rest a)"

text \<open>The loop over the entries that \<^verbatim>\<open>ioutil.ReadDir\<close> returned.\<close>

fun ListPlaylistSongs_files :: "FileInfo list \<Rightarrow> Dirent list \<Rightarrow> Dirent list" where
  "ListPlaylistSongs_files [] a = a"
| "ListPlaylistSongs_files (f # files) a =
     (if \<not> fi_IsDir f
      then ListPlaylistSongs_files files (a @ [\<lparr>Inode = 0, Type = DT_File, Name = fi_Name f\<rparr>])
      else ListPlaylistSongs_files files a)"

definition ListPlaylistSongs ::
  "store_env \<Rightarrow> bucket \<Rightarrow> string \<Rightarrow> string \<Rightarrow> (Dirent list \<times> error option) outcome" where
  "ListPlaylistSongs E db playlist mPoint =
     (case bolt_Open E of
        Some err \<Rightarrow> Returns ([], Some err)
      | None \<Rightarrow>
          let a = (case Bucket_Bucket db ''Playlists'' of
                     None \<Rightarrow> []
                   | Some root \<Rightarrow>
                       (case Bucket_Bucket root playlist of
                          None \<Rightarrow> []
                        | Some b \<Rightarrow> ListPlaylistSongs_loop b []))
          in if mPoint = [] then Panics IndexOutOfRange
             else
               let mPoint1 = (if last mPoint \<noteq> CHR ''/'' then mPoint @ ''/'' else mPoint);
                   fullPath = mPoint1 @ ''playlists/'' @ playlist @ ''/'';
                   files = fst (ioutil_ReadDir E fullPath)
               in Returns (ListPlaylistSongs_files files a, None))"

subsection \<open>CreatePlaylist\<close>

text \<open>Writing a nested bucket back at its key (the bucket handle is mutated in place).\<close>

fun bucket_replace :: "string \<Rightarrow> node \<Rightarrow> bucket \<Rightarrow> bucket" where
  "bucket_replace k v [] = []"
| "bucket_replace k v ((k', v') # rest) =
     (if k' = k then (k, v) # rest else (k', v') # bucket_replace k v rest)"

text \<open>The function passed to \<^verbatim>\<open>db.Update\<close>; it yields the database after the two creations.\<close>

definition CreatePlaylist_update :: "bucket \<Rightarrow> string \<Rightarrow> error + bucket" where
  "CreatePlaylist_update db name =
     (case CreateBucketIfNotExists db ''Playlists'' of
        Inl err \<Rightarrow> Inl err
      | Inr (db1, root) \<Rightarrow>
          (case CreateBucketIfNotExists root name of
             Inl err \<Rightarrow> Inl err
           | Inr (root1, _) \<Rightarrow> Inr (bucket_replace ''Playlists'' (Sub root1) db1)))"

text \<open>
  \<^verbatim>\<open>db.Update(fn)\<close>: an error of the function rolls the transaction back, and so does a
  failing commit; otherwise the database is what the function left.
\<close>

definition db_Update :: "store_env \<Rightarrow> bucket \<Rightarrow> (bucket \<Rightarrow> error + bucket) \<Rightarrow> error option \<times> bucket" where
  "db_Update E db fn =
     (case fn db of
        Inl err \<Rightarrow> (Some err, db)
      | Inr db1 \<Rightarrow> (case tx_Commit E of Some err \<Rightarrow> (Some err, db) | None \<Rightarrow> (None, db1)))"

text \<open>
  The result of \<^verbatim>\<open>CreatePlaylist\<close> is what it returns, the database afterwards, and the calls
  of \<^verbatim>\<open>playlistmgr.RegeneratePlaylistFile\<close> it made (each with its two arguments).
\<close>

definition CreatePlaylist ::
  "store_env \<Rightarrow> bucket \<Rightarrow> string \<Rightarrow> string \<Rightarrow> (string \<times> error option) \<times> bucket \<times> (string \<times> string) list" where
  "CreatePlaylist E db name mPoint =
     (let name1 = getCompatibleString E name
      in case bolt_Open E of
           Some err \<Rightarrow> (('''', Some err), db, [])
         | None \<Rightarrow>
             (case db_Update E db (\<lambda>tx. CreatePlaylist_update tx name1) of
                (Some err, db1) \<Rightarrow> (('''', Some err), db1, [])
              | (None, db1) \<Rightarrow> ((name1, None), db1, [(name1, mPoint)])))"

section \<open>The main package: files and file handles\<close>

subsection \<open>Nodes, handles and the world around them\<close>

text \<open>
  \<^verbatim>\<open>writers\<close> is a Go \<^verbatim>\<open>uint\<close> (64 bits on the usual targets); \<^verbatim>\<open>data\<close> is a byte slice,
  \<open>None\<close> being the nil slice. The mutex of a node shows in the trace of events.
\<close>

record File =
  artist :: string
  album :: string
  song :: string
  name :: string
  mPoint :: string
  writers :: "64 word"
  data :: "string option"

text \<open>
  A handle holds a pointer to an open \<^verbatim>\<open>os.File\<close> (the descriptor number, \<open>None\<close> for nil)
  and a pointer to its node (an address of the heap, \<open>None\<close> for nil). The fields are
  \<^verbatim>\<open>r\<close> and \<^verbatim>\<open>f\<close> in the source.
\<close>

record FileHandle =
  fh_r :: "nat option"
  fh_f :: "nat option"

record fuse_Attr =
  Size :: "64 word"
  Mode :: "32 word"

text \<open>
  Every call that leaves the package and every write to the fields of a node that its
  mutex guards (\<^verbatim>\<open>writers\<close> and \<^verbatim>\<open>data\<close>), in the order in which they happen.
\<close>

datatype event =
    MuLock nat
  | MuUnlock nat
  | Ev_SetWriters nat "64 word"
  | Ev_SetData nat "string option"
  | Ev_GetDescription string string string
  | Ev_GetSpecialFile string string string
  | Ev_GetFilePath string string string
  | Ev_Open string
  | Ev_Stat nat
  | Ev_Close nat
  | Ev_Sync nat
  | Ev_HandleDrop string
  | Ev_SetMp3Tags string string string string

record world =
  heap :: "nat \<Rightarrow> File"
  open_fds :: "nat set"
  trace :: "event list"

text \<open>
  What the calls that leave the package answer: the store package
  (\<^verbatim>\<open>GetDescription\<close>, \<^verbatim>\<open>GetSpecialFile\<close>, \<^verbatim>\<open>GetFilePath\<close>, \<^verbatim>\<open>HandleDrop\<close>), the operating
  system (\<^verbatim>\<open>os.Open\<close>, \<^verbatim>\<open>Stat\<close> and \<^verbatim>\<open>Close\<close> of an open file) and \<^verbatim>\<open>runtime.GOOS\<close>.
\<close>

record fs_env =
  store_GetDescription :: "string \<Rightarrow> string \<Rightarrow> string \<Rightarrow> error + string"
  store_GetSpecialFile :: "string \<Rightarrow> string \<Rightarrow> string \<Rightarrow> error + string"
  store_GetFilePath :: "string \<Rightarrow> string \<Rightarrow> string \<Rightarrow> error + string"
  store_HandleDrop :: "string \<Rightarrow> error option"
  os_Open :: "string \<Rightarrow> error + nat"
  File_Stat :: "nat \<Rightarrow> error + FileInfo"
  File_Close :: "nat \<Rightarrow> error option"
  runtime_GOOS :: string

definition emit :: "event \<Rightarrow> world \<Rightarrow> world" where
  "emit e w = w\<lparr>trace := trace w @ [e]\<rparr>"

text \<open>Closing logs the call and frees the descriptor.\<close>

definition do_Close :: "nat \<Rightarrow> world \<Rightarrow> world" where
  "do_Close fd w = (emit (Ev_Close fd) w)\<lparr>open_fds := open_fds w - {fd}\<rparr>"

text \<open>
  Assignments to \<^verbatim>\<open>f.writers\<close> and \<^verbatim>\<open>f.data\<close> of the node at an address: the write is
  logged where it happens and changes the node in the heap.
\<close>

definition set_writers :: "nat \<Rightarrow> 64 word \<Rightarrow> world \<Rightarrow> world" where
  "set_writers fp v w =
     (emit (Ev_SetWriters fp v) w)\<lparr>heap := (heap w)(fp := (heap w fp)\<lparr>writers := v\<rparr>)\<rparr>"

definition set_data :: "nat \<Rightarrow> string option \<Rightarrow> world \<Rightarrow> world" where
  "set_data fp d w =
     (emit (Ev_SetData fp d) w)\<lparr>heap := (heap w)(fp := (heap w fp)\<lparr>data := d\<rparr>)\<rparr>"

text \<open>\<^verbatim>\<open>len\<close> of a byte slice that may be nil.\<close>

definition len_bytes :: "string option \<Rightarrow> nat" where
  "len_bytes d = (case d of None \<Rightarrow> 0 | Some b \<Rightarrow> length b)"

text \<open>
  The open flags of fuse: the access mode is the two low bits (\<^verbatim>\<open>O_ACCMODE\<close>), read-only is
  mode 0 (\<^verbatim>\<open>O_RDONLY\<close>); \<^verbatim>\<open>OpenDirectIO\<close> is bit 0 of the response flags.
\<close>

definition IsReadOnly :: "32 word \<Rightarrow> bool" where
  "IsReadOnly fl = (fl AND 3 = 0)"

definition OpenDirectIO :: "32 word" where
  "OpenDirectIO = 1"

text \<open>\<^verbatim>\<open>filepath.Ext\<close>: the suffix from the last dot of the last path element, scanning backwards.\<close>

fun Ext_scan :: "string \<Rightarrow> string \<Rightarrow> string" where
  "Ext_scan [] acc = ''''"
| "Ext_scan (c # cs) acc =
     (if c = CHR ''/'' then ''''
      else if c = CHR ''.'' then c # acc
      else Ext_scan cs (c # acc))"

definition filepath_Ext :: "string \<Rightarrow> string" where
  "filepath_Ext path = Ext_scan (rev path) []"

subsection \<open>File.Attr\<close>

definition File_Attr ::
  "fs_env \<Rightarrow> nat \<Rightarrow> fuse_Attr \<Rightarrow> world \<Rightarrow> error option outcome \<times> fuse_Attr \<times> world" where
  "File_Attr E fp a w =
     (let fl = heap w fp in
      if name fl = [] then (Panics IndexOutOfRange, a, w)
      else if name fl ! 0 = CHR ''.'' then
        if name fl = ''.description'' then
          let w1 = emit (Ev_GetDescription (artist fl) (album fl) (name fl)) w
          in (case store_GetDescription E (artist fl) (album fl) (name fl) of
                Inl err \<Rightarrow> (Returns (Some err), a, w1)
              | Inr descriptionJson \<Rightarrow>
                  (Returns None, a\<lparr>Size := of_nat (length descriptionJson), Mode := 292\<rparr>, w1))
        else
          let w1 = emit (MuLock fp) w;
              a1 = a\<lparr>Mode := 438\<rparr>;
              a2 = a1\<lparr>Size := of_nat (len_bytes (data fl))\<rparr>
          in if writers fl = 0 then
               let w2 = emit (Ev_GetSpecialFile (artist fl) (album fl) (name fl)) w1
               in (case store_GetSpecialFile E (artist fl) (album fl) (name fl) of
                     Inl err \<Rightarrow> (Returns (Some err), a2, emit (MuUnlock fp) w2)
                   | Inr b \<Rightarrow>
                       (Returns None, a2\<lparr>Size := of_nat (length b)\<rparr>, emit (MuUnlock fp) w2))
             else (Returns None, a2, emit (MuUnlock fp) w1)
      else
        let w1 = emit (Ev_GetFilePath (artist fl) (album fl) (name fl)) w
        in (case store_GetFilePath E (artist fl) (album fl) (name fl) of
              Inl err \<Rightarrow> (Returns (Some err), a, w1)
            | Inr songPath \<Rightarrow>
                let w2 = emit (Ev_Open songPath) w1
                in (case os_Open E songPath of
                      Inl err \<Rightarrow> (Returns (Some err), a, w2)
                    | Inr fd \<Rightarrow>
                        let w3 = emit (Ev_Stat fd) (w2\<lparr>open_fds := insert fd (open_fds w2)\<rparr>)
                        in (case File_Stat E fd of
                              Inl err \<Rightarrow> (Returns (Some err), a, do_Close fd w3)
                            | Inr fi \<Rightarrow>
                                (Returns None, a\<lparr>Size := fi_Size fi, Mode := 511\<rparr>,
                                 do_Close fd w3)))))"

subsection \<open>File.Open\<close>

definition File_Open ::
  "fs_env \<Rightarrow> nat \<Rightarrow> 32 word \<Rightarrow> 32 word \<Rightarrow> world
     \<Rightarrow> (FileHandle option \<times> error option) outcome \<times> 32 word \<times> world" where
  "File_Open E fp req_Flags resp_Flags w =
     (let fl = heap w fp in
      if name fl = ''.description''
        then (Returns (Some \<lparr>fh_r = None, fh_f = Some fp\<rparr>, None), resp_Flags, w)
      else if name fl = [] then (Panics IndexOutOfRange, resp_Flags, w)
      else if name fl ! 0 = CHR ''.'' then (Returns (None, Some EPERM), resp_Flags, w)
      else
        let resp1 = (if runtime_GOOS E = ''darwin'' then resp_Flags OR OpenDirectIO else resp_Flags);
            w1 = emit (Ev_GetFilePath (artist fl) (album fl) (name fl)) w
        in (case store_GetFilePath E (artist fl) (album fl) (name fl) of
              Inl err \<Rightarrow> (Returns (None, Some err), resp1, w1)
            | Inr songPath \<Rightarrow>
                let w2 = emit (Ev_Open songPath) w1
                in (case os_Open E songPath of
                      Inl err \<Rightarrow> (Returns (None, Some err), resp1, w2)
                    | Inr fd \<Rightarrow>
                        (Returns (Some \<lparr>fh_r = Some fd, fh_f = Some fp\<rparr>, None), resp1,
                         w2\<lparr>open_fds := insert fd (open_fds w2)\<rparr>))))"

subsection \<open>FileHandle.Release\<close>

text \<open>
  The request carries the open flags. The second test of \<^verbatim>\<open>fh.r == nil\<close> in the source
  cannot be reached with a nil descriptor (the first one returns in every branch), so the
  descriptor is real from there on.
\<close>

definition FileHandle_Release ::
  "fs_env \<Rightarrow> FileHandle \<Rightarrow> 32 word \<Rightarrow> world \<Rightarrow> error option outcome \<times> world" where
  "FileHandle_Release E fh req_Flags w =
     (case fh_r fh of
        None \<Rightarrow>
          (case fh_f fh of
             None \<Rightarrow> (Panics NilDereference, w)
           | Some fp \<Rightarrow>
               let fl = heap w fp in
               if name fl = ''.description'' then (Returns None, w)
               else if length (name fl) > 1 \<and> name fl ! 0 = CHR ''.''
                       \<and> (name fl ! 1 = CHR ''_'' \<or> name fl = ''.DS_Store'') then
                 if IsReadOnly req_Flags then (Returns None, w)
                 else
                   let w1 = emit (MuLock fp) w;
                       w2 = set_writers fp (writers (heap w1 fp) - 1) w1;
                       w3 = (if writers (heap w2 fp) = 0 then set_data fp None w2 else w2)
                   in (Returns None, emit (MuUnlock fp) w3)
               else (Returns None, w))
      | Some fd \<Rightarrow>
          if fh_f fh \<noteq> None \<and> artist (heap w (the (fh_f fh))) = ''drop'' then
            let fl = heap w (the (fh_f fh));
                ret_val = File_Close E fd;
                w1 = do_Close fd w;
                rootPoint = mPoint fl
            in if rootPoint = [] then (Panics IndexOutOfRange, w1)
               else
                 let rootPoint1 = (if last rootPoint \<noteq> CHR ''/'' then rootPoint @ ''/'' else rootPoint);
                     path = rootPoint1 @ ''drop/'' @ name fl;
                     w2 = emit (Ev_HandleDrop path) w1
                 in (case store_HandleDrop E path of
                       Some err \<Rightarrow> (Returns (Some err), w2)
                     | None \<Rightarrow> (Returns ret_val, w2))
          else if fh_f fh = None \<or> length (artist (heap w (the (fh_f fh)))) < 1
                  \<or> length (album (heap w (the (fh_f fh)))) < 1 then
            (Returns (File_Close E fd), do_Close fd w)
          else
            let fl = heap w (the (fh_f fh));
                ret_val = File_Close E fd;
                w1 = do_Close fd w;
                extension = filepath_Ext (name fl);
                w2 = emit (Ev_GetFilePath (artist fl) (album fl) (name fl)) w1
            in (case store_GetFilePath E (artist fl) (album fl) (name fl) of
                  Inl err \<Rightarrow> (Returns (Some err), w2)
                | Inr songPath \<Rightarrow>
                    if artist fl = ''playlist'' then (Returns ret_val, w2)
                    else if extension = ''.mp3''
                      then (Returns ret_val,
                            emit (Ev_SetMp3Tags (artist fl) (album fl) (song fl) songPath) w2)
                    else (Returns ret_val, w2)))"

subsection \<open>FileHandle.Flush\<close>

definition FileHandle_Flush :: "FileHandle \<Rightarrow> world \<Rightarrow> error option outcome \<times> world" where
  "FileHandle_Flush fh w =
     (case fh_r fh of
        None \<Rightarrow> (Returns (Some EIO), w)
      | Some fd \<Rightarrow> (Returns None, emit (Ev_Sync fd) w))"

subsection \<open>Special files: opening for writing and buffering\<close>



section \<open>Notions of the specification\<close>

text \<open>
  The record that the store holds for song \<open>s\<close> under playlist \<open>p\<close>: the value at
  \<^verbatim>\<open>Playlists/<p>/<s>\<close>, if there is one.
\<close>

definition record_of :: "bucket \<Rightarrow> string \<Rightarrow> string \<Rightarrow> string option" where
  "record_of db p s =
     (case Bucket_Bucket db ''Playlists'' of
        None \<Rightarrow> None
      | Some root \<Rightarrow> (case Bucket_Bucket root p of None \<Rightarrow> None | Some pb \<Rightarrow> Bucket_Get pb s))"

text \<open>The conventional location \<^verbatim>\<open><m>/playlists/<p>/<s>\<close>, the trailing slash of \<open>m\<close> normalised.\<close>

definition fallback_path :: "string \<Rightarrow> string \<Rightarrow> string \<Rightarrow> string" where
  "fallback_path m p s =
     (if m \<noteq> [] \<and> last m = CHR ''/'' then m else m @ ''/'') @ ''playlists/'' @ p @ ''/'' @ s"

text \<open>A file that is not a directory exists at a path.\<close>

definition file_at :: "store_env \<Rightarrow> string \<Rightarrow> bool" where
  "file_at E path = (case os_Stat E path of Inl _ \<Rightarrow> False | Inr src \<Rightarrow> \<not> fi_IsDir src)"

text \<open>The directory entries that the listings emit.\<close>

definition file_entry :: "string \<Rightarrow> Dirent" where
  "file_entry n = \<lparr>Inode = 0, Type = DT_File, Name = n\<rparr>"

definition dir_entry :: "string \<Rightarrow> Dirent" where
  "dir_entry n = \<lparr>Inode = 0, Type = DT_Dir, Name = n\<rparr>"

text \<open>The keys of a bucket that hold a value, and those that hold a nested bucket, in cursor order.\<close>

fun has_value :: "string \<times> node \<Rightarrow> bool" where
  "has_value (k, Leaf v) = True"
| "has_value (k, Sub b) = False"

definition value_keys :: "bucket \<Rightarrow> string list" where
  "value_keys b = map fst (filter has_value b)"

definition bucket_keys :: "bucket \<Rightarrow> string list" where
  "bucket_keys b = map fst (filter (\<lambda>kv. \<not> has_value kv) b)"

text \<open>The names of the entries of a directory listing that are not directories, in its order.\<close>

definition plain_files :: "FileInfo list \<Rightarrow> string list" where
  "plain_files files = map fi_Name (filter (\<lambda>f. \<not> fi_IsDir f) files)"

text \<open>
  The bucket \<^verbatim>\<open>Playlists\<close> and the bucket \<^verbatim>\<open>Playlists/<p>\<close> (empty when absent), and the
  conventional directory \<^verbatim>\<open><m>/playlists/<p>/\<close>.
\<close>

definition playlists_root :: "bucket \<Rightarrow> bucket" where
  "playlists_root db = (case Bucket_Bucket db ''Playlists'' of None \<Rightarrow> [] | Some root \<Rightarrow> root)"

definition playlist_bucket :: "bucket \<Rightarrow> string \<Rightarrow> bucket" where
  "playlist_bucket db p = (case Bucket_Bucket (playlists_root db) p of None \<Rightarrow> [] | Some b \<Rightarrow> b)"

definition playlist_dir :: "string \<Rightarrow> string \<Rightarrow> string" where
  "playlist_dir m p =
     (if m \<noteq> [] \<and> last m = CHR ''/'' then m else m @ ''/'') @ ''playlists/'' @ p @ ''/''"

text \<open>The key order that bolt maintains, at the two levels that playlist creation touches.\<close>

definition store_ok :: "bucket \<Rightarrow> bool" where
  "store_ok db = (bucket_ok db \<and> bucket_ok (playlists_root db))"

text \<open>The path of a dropped file, \<^verbatim>\<open><m>/drop/<n>\<close>.\<close>

definition drop_path :: "string \<Rightarrow> string \<Rightarrow> string" where
  "drop_path m n = (if m \<noteq> [] \<and> last m = CHR ''/'' then m else m @ ''/'') @ ''drop/'' @ n"






text \<open>A key of a bucket holds a plain value (not a nested bucket).\<close>

definition holds_value :: "bucket \<Rightarrow> string \<Rightarrow> bool" where
  "holds_value b k = (Bucket_Get b k \<noteq> None)"

section \<open>An example store and an example file system\<close>

text \<open>Concrete values at which the properties below are instantiated.\<close>

definition ex_doc :: string where
  \<open>ex_doc = ''{"path":"/music/a.mp3"}''\<close>

definition ex_Unmarshal :: "string \<Rightarrow> error + PlaylistFile" where
  "ex_Unmarshal b =
     (if b = ex_doc then Inr \<lparr>Path = ''/music/a.mp3''\<rparr>
      else Inl (OtherError ''unexpected end of JSON input''))"

definition ex_files :: "FileInfo list" where
  "ex_files =
     [\<lparr>fi_Name = ''broken'', fi_IsDir = False, fi_Size = 1\<rparr>,
      \<lparr>fi_Name = ''dropped.mp3'', fi_IsDir = False, fi_Size = 4\<rparr>,
      \<lparr>fi_Name = ''sub'', fi_IsDir = True, fi_Size = 0\<rparr>,
      \<lparr>fi_Name = ''track1'', fi_IsDir = False, fi_Size = 4\<rparr>]"

definition ex_Stat :: "string \<Rightarrow> error + FileInfo" where
  "ex_Stat path =
     (case find (\<lambda>f. ''/mnt/playlists/My_Mix/'' @ fi_Name f = path) ex_files of
        Some f \<Rightarrow> Inr f
      | None \<Rightarrow> Inl (OtherError ''no such file or directory''))"

definition ex_ReadDir :: "string \<Rightarrow> FileInfo list \<times> error option" where
  "ex_ReadDir path =
     (if path = ''/mnt/playlists/My_Mix/'' then (ex_files, None)
      else ([], Some (OtherError ''no such file or directory'')))"

definition ex_compatible :: "string \<Rightarrow> string" where
  "ex_compatible n = map (\<lambda>c. if c = CHR '' '' then CHR ''_'' else c) n"

definition ex_env :: store_env where
  "ex_env = \<lparr>bolt_Open = None, tx_Commit = None, json_Unmarshal = ex_Unmarshal,
             os_Stat = ex_Stat, ioutil_ReadDir = ex_ReadDir,
             getCompatibleString = ex_compatible\<rparr>"

definition ex_db :: bucket where
  "ex_db =
     [(''Playlists'',
       Sub [(''My_Mix'',
             Sub [(''broken'', Leaf ''{''), (''nested'', Sub []), (''track1'', Leaf ex_doc)])])]"

definition ex_other_db :: bucket where
  "ex_other_db = [(''Playlists'', Sub [(''Other'', Sub [(''track9'', Leaf ex_doc)])])]"

definition ex_node :: File where
  "ex_node = \<lparr>artist = ''Queen'', album = ''Jazz'', song = ''Bicycle Race'', name = ''bicycle.mp3'',
              mPoint = ''/mnt'', writers = 0, data = None\<rparr>"

definition ex_heap :: "nat \<Rightarrow> File" where
  "ex_heap =
     (\<lambda>_. ex_node)
       (9 := ex_node\<lparr>artist := ''drop'', album := '''', name := ''new.mp3''\<rparr>,
        2 := ex_node\<lparr>name := ''._bicycle.mp3'', writers := 2, data := Some ''abc''\<rparr>,
        3 := ex_node\<lparr>name := ''.description''\<rparr>,
        4 := ex_node\<lparr>name := ''''\<rparr>,
        5 := ex_node\<lparr>name := ''.hidden''\<rparr>,
        6 := ex_node\<lparr>artist := ''drop'', album := '''', name := ''new.mp3'', mPoint := ''''\<rparr>,
        8 := ex_node\<lparr>name := ''.DS_Store''\<rparr>)"

definition ex_world :: world where
  "ex_world = \<lparr>heap = ex_heap, open_fds = {7}, trace = []\<rparr>"

definition ex_fs :: fs_env where
  "ex_fs =
     \<lparr>store_GetDescription = (\<lambda>ar al n. Inr ''{}''),
      store_GetSpecialFile = (\<lambda>ar al n. Inl ENOENT),
      store_GetFilePath = (\<lambda>ar al n. Inr (''/music/'' @ ar @ ''/'' @ al @ ''/'' @ n)),
      store_HandleDrop = (\<lambda>path. Some (OtherError ''no tags'')),
      os_Open = (\<lambda>path. Inr 8),
      File_Stat = (\<lambda>fd. Inr \<lparr>fi_Name = ''bicycle.mp3'', fi_IsDir = False, fi_Size = 4\<rparr>),
      File_Close = (\<lambda>fd. None),
      runtime_GOOS = ''linux''\<rparr>"

section \<open>Properties\<close>

lemma view_record_of:
  "GetPlaylistFilePath_view E db p s =
     (case record_of db p s of
        None \<Rightarrow> Inl (ErrorsNew
          (if Bucket_Bucket db ''Playlists'' = None then ''No playlists.''
           else if Bucket_Bucket (the (Bucket_Bucket db ''Playlists'')) p = None
             then ''Playlist not exists.'' else ''Song not found.''))
      | Some songJson \<Rightarrow>
          (case json_Unmarshal E songJson of
             Inl _ \<Rightarrow> Inl (ErrorsNew ''Cannot open song.'')
           | Inr file \<Rightarrow> Inr (Path file)))"
  by (simp add: GetPlaylistFilePath_view_def record_of_def split: option.splits)

subsection \<open>The instances, evaluated\<close>

lemma ex_record_track1: "record_of ex_db ''My_Mix'' ''track1'' = Some ex_doc"
  by (simp add: record_of_def ex_db_def Bucket_Bucket_def Bucket_Get_def)

lemma ex_record_broken: "record_of ex_db ''My_Mix'' ''broken'' = Some ''{''"
  by (simp add: record_of_def ex_db_def Bucket_Bucket_def Bucket_Get_def)

lemma ex_record_dropped: "record_of ex_db ''My_Mix'' ''dropped.mp3'' = None"
  by (simp add: record_of_def ex_db_def Bucket_Bucket_def Bucket_Get_def)

lemma ex_record_nosong: "record_of ex_db ''My_Mix'' ''nosong'' = None"
  by (simp add: record_of_def ex_db_def Bucket_Bucket_def Bucket_Get_def)

lemma ex_record_sub: "record_of ex_db ''My_Mix'' ''sub'' = None"
  by (simp add: record_of_def ex_db_def Bucket_Bucket_def Bucket_Get_def)

lemma ex_Unmarshal_doc: "json_Unmarshal ex_env ex_doc = Inr \<lparr>Path = ''/music/a.mp3''\<rparr>"
  by (simp add: ex_env_def ex_Unmarshal_def)

lemma ex_Unmarshal_broken: "json_Unmarshal ex_env ''{'' = Inl (OtherError ''unexpected end of JSON input'')"
  by (simp add: ex_env_def ex_Unmarshal_def ex_doc_def)

lemma ex_file_at_track1: "file_at ex_env ''/mnt/playlists/My_Mix/track1''"
  by (simp add: file_at_def ex_env_def ex_Stat_def ex_files_def)

lemma ex_file_at_broken: "file_at ex_env ''/mnt/playlists/My_Mix/broken''"
  by (simp add: file_at_def ex_env_def ex_Stat_def ex_files_def)

lemma ex_file_at_dropped: "file_at ex_env ''/mnt/playlists/My_Mix/dropped.mp3''"
  by (simp add: file_at_def ex_env_def ex_Stat_def ex_files_def)

lemma ex_file_at_nosong: "\<not> file_at ex_env ''/mnt/playlists/My_Mix/nosong''"
  by (simp add: file_at_def ex_env_def ex_Stat_def ex_files_def)

lemma ex_file_at_sub: "\<not> file_at ex_env ''/mnt/playlists/My_Mix/sub''"
  by (simp add: file_at_def ex_env_def ex_Stat_def ex_files_def)

lemma ex_compatible_My_Mix: "getCompatibleString ex_env ''My Mix'' = ''My_Mix''"
  by (simp add: ex_env_def ex_compatible_def)

lemma ex_update_empty:
  "CreatePlaylist_update [] ''My_Mix'' = Inr [(''Playlists'', Sub [(''My_Mix'', Sub [])])]"
  by (simp add: CreatePlaylist_update_def CreateBucketIfNotExists_def)

lemma ex_heap_simps:
  "ex_heap 0 = ex_node"
  "ex_heap 9 = ex_node\<lparr>artist := ''drop'', album := '''', name := ''new.mp3''\<rparr>"
  "ex_heap 2 = ex_node\<lparr>name := ''._bicycle.mp3'', writers := 2, data := Some ''abc''\<rparr>"
  "ex_heap 3 = ex_node\<lparr>name := ''.description''\<rparr>"
  "ex_heap 4 = ex_node\<lparr>name := ''''\<rparr>"
  "ex_heap 5 = ex_node\<lparr>name := ''.hidden''\<rparr>"
  "ex_heap 6 = ex_node\<lparr>artist := ''drop'', album := '''', name := ''new.mp3'', mPoint := ''''\<rparr>"
  by (simp_all add: ex_heap_def)


lemma ex_other_ok:
  "store_ok ex_other_db"
  "\<not> holds_value ex_other_db ''Playlists''"
  "\<not> holds_value (playlists_root ex_other_db) ''My_Mix''"
  "playlists_root ex_other_db = [(''Other'', Sub [(''track9'', Leaf ex_doc)])]"
  by (simp_all add: store_ok_def bucket_ok_def playlists_root_def Bucket_Bucket_def
        holds_value_def Bucket_Get_def ex_other_db_def)

lemma ex_other_update:
  "CreatePlaylist_update ex_other_db ''My_Mix'' =
     Inr [(''Playlists'', Sub [(''My_Mix'', Sub []), (''Other'', Sub [(''track9'', Leaf ex_doc)])])]"
  by (simp add: CreatePlaylist_update_def CreateBucketIfNotExists_def ex_other_db_def)

lemma ex_other_update_empty_name:
  "CreatePlaylist_update ex_other_db '''' = Inl ErrBucketNameRequired"
  by (simp add: CreatePlaylist_update_def CreateBucketIfNotExists_def ex_other_db_def)

lemma ex_compatible_empty: "getCompatibleString ex_env '''' = ''''"
  by (simp add: ex_env_def ex_compatible_def)

lemma ex_env_opens: "bolt_Open ex_env = None" "tx_Commit ex_env = None"
  by (simp_all add: ex_env_def)

subsection \<open>Resolution of a playlist entry\<close>

lemma fallback_result:
  assumes "bolt_Open E = None" and "\<exists>e. GetPlaylistFilePath_view E db p s = Inl e" and "m \<noteq> []"
  shows "GetPlaylistFilePath E db p s m =
     (if file_at E (fallback_path m p s) then Returns (fallback_path m p s, None)
      else Returns ('''', Some (ErrorsNew ''File not exists.'')))"
  using assms
  by (auto simp: GetPlaylistFilePath_def fallback_path_def file_at_def Let_def split: sum.splits)

lemma view_no_record: "record_of db p s = None \<Longrightarrow> \<exists>e. GetPlaylistFilePath_view E db p s = Inl e"
  by (simp add: view_record_of)

subsection \<open>Listings\<close>

lemma loop_songs: "ListPlaylistSongs_loop b a = a @ map file_entry (value_keys b)"
  by (induction b a rule: ListPlaylistSongs_loop.induct)
     (auto simp: value_keys_def file_entry_def split: node.splits)

lemma loop_files: "ListPlaylistSongs_files files a = a @ map file_entry (plain_files files)"
  by (induction files a rule: ListPlaylistSongs_files.induct)
     (auto simp: plain_files_def file_entry_def)

lemma loop_playlists: "ListPlaylists_loop b a = a @ map dir_entry (bucket_keys b)"
  by (induction b a rule: ListPlaylists_loop.induct)
     (auto simp: bucket_keys_def dir_entry_def split: node.splits)

lemma songs_of_store:
  "(case Bucket_Bucket db ''Playlists'' of
      None \<Rightarrow> []
    | Some root \<Rightarrow> (case Bucket_Bucket root p of None \<Rightarrow> [] | Some b \<Rightarrow> ListPlaylistSongs_loop b []))
   = map file_entry (value_keys (playlist_bucket db p))"
  by (simp add: playlist_bucket_def playlists_root_def loop_songs value_keys_def Bucket_Bucket_def
           split: option.splits)

lemma ListPlaylistSongs_eq:
  assumes "bolt_Open E = None" "m \<noteq> []"
  shows "ListPlaylistSongs E db p m =
     Returns (map file_entry (value_keys (playlist_bucket db p))
              @ map file_entry (plain_files (fst (ioutil_ReadDir E (playlist_dir m p)))), None)"
  using assms
  by (simp add: ListPlaylistSongs_def songs_of_store loop_files playlist_dir_def Let_def)

lemma value_keys_sorted: "bucket_ok b \<Longrightarrow> sorted_wrt (<) (value_keys b)"
  unfolding bucket_ok_def value_keys_def
  by (simp add: sorted_wrt_map sorted_wrt_filter)

lemma bucket_keys_sorted: "bucket_ok b \<Longrightarrow> sorted_wrt (<) (bucket_keys b)"
  unfolding bucket_ok_def bucket_keys_def
  by (simp add: sorted_wrt_map sorted_wrt_filter)

lemma count_file_entry: "count_list (map file_entry xs) (file_entry s) = count_list xs s"
  by (induction xs) (auto simp: file_entry_def)

lemma count_list_distinct: "distinct xs \<Longrightarrow> x \<in> set xs \<Longrightarrow> count_list xs x = 1"
  by (induction xs) (auto simp: count_list_0_iff)

lemma count_list_member: "x \<in> set xs \<Longrightarrow> 1 \<le> count_list xs x"
  by (induction xs) auto

lemma ex_playlist_bucket:
  "playlist_bucket ex_db ''My_Mix'' = [(''broken'', Leaf ''{''), (''nested'', Sub []), (''track1'', Leaf ex_doc)]"
  by (simp add: playlist_bucket_def playlists_root_def ex_db_def Bucket_Bucket_def)

subsection \<open>Creation of buckets\<close>

lemma map_of_bucket_put: "map_of (bucket_put k v b) = (map_of b)(k \<mapsto> v)"
  by (induction b) (auto simp: fun_eq_iff)

lemma keys_bucket_put: "set (map fst (bucket_put k v b)) = insert k (set (map fst b))"
proof -
  have "set (map fst (bucket_put k v b)) = dom (map_of (bucket_put k v b))"
    by (simp add: dom_map_of_conv_image_fst)
  also have "\<dots> = insert k (dom (map_of b))"
    by (simp add: map_of_bucket_put)
  finally show ?thesis by (simp add: dom_map_of_conv_image_fst)
qed

lemma bucket_put_ok: "bucket_ok b \<Longrightarrow> bucket_ok (bucket_put k v b)"
  unfolding bucket_ok_def
proof (induction b)
  case Nil
  then show ?case by simp
next
  case (Cons kv b)
  obtain k' v' where kv: "kv = (k', v')" by (cases kv)
  show ?case
  proof (cases "k < k'")
    case True
    with Cons.prems kv show ?thesis by auto
  next
    case False
    show ?thesis
    proof (cases "k = k'")
      case True
      with Cons.prems kv show ?thesis by auto
    next
      case ne: False
      with False have "k' < k" by auto
      moreover have "sorted_wrt (<) (map fst (bucket_put k v b))" using Cons by simp
      ultimately show ?thesis
        using Cons.prems kv False ne keys_bucket_put [of k v b] by auto
    qed
  qed
qed

lemma keys_bucket_replace: "map fst (bucket_replace k v b) = map fst b"
  by (induction b) auto

lemma bucket_replace_ok: "bucket_ok b \<Longrightarrow> bucket_ok (bucket_replace k v b)"
  by (simp add: bucket_ok_def keys_bucket_replace)

lemma map_of_bucket_replace:
  "map_of b k = Some v' \<Longrightarrow> map_of (bucket_replace k v b) = (map_of b)(k \<mapsto> v)"
  by (induction b) (auto simp: fun_eq_iff)

lemma bucket_replace_same: "map_of b k = Some v \<Longrightarrow> bucket_replace k v b = b"
  by (induction b) (auto split: if_splits)

lemma CreateBucketIfNotExists_Inr:
  assumes "CreateBucketIfNotExists b key = Inr (b1, c)"
  shows "key \<noteq> [] \<and> map_of b1 key = Some (Sub c) \<and> (bucket_ok b \<longrightarrow> bucket_ok b1)
        \<and> (b1 = b \<or> (b1 = bucket_put key (Sub []) b \<and> c = []))"
  using assms
  by (auto simp: CreateBucketIfNotExists_def map_of_bucket_put bucket_put_ok
           split: if_splits option.splits node.splits)

lemma CreateBucketIfNotExists_present:
  "key \<noteq> [] \<Longrightarrow> map_of b key = Some (Sub c) \<Longrightarrow> CreateBucketIfNotExists b key = Inr (b, c)"
  by (simp add: CreateBucketIfNotExists_def)

lemma update_Inr:
  assumes "CreatePlaylist_update db nm = Inr db1"
  shows "\<exists>root1 c. nm \<noteq> [] \<and> map_of db1 ''Playlists'' = Some (Sub root1)
           \<and> map_of root1 nm = Some (Sub c)
           \<and> (store_ok db \<longrightarrow> bucket_ok db1 \<and> bucket_ok root1)"
proof -
  from assms obtain db0 root where 1: "CreateBucketIfNotExists db ''Playlists'' = Inr (db0, root)"
    by (auto simp: CreatePlaylist_update_def split: sum.splits)
  with assms obtain root1 c where 2: "CreateBucketIfNotExists root nm = Inr (root1, c)"
    and 3: "db1 = bucket_replace ''Playlists'' (Sub root1) db0"
    by (auto simp: CreatePlaylist_update_def split: sum.splits)
  from CreateBucketIfNotExists_Inr [OF 1]
  have a: "map_of db0 ''Playlists'' = Some (Sub root)" and a_ok: "bucket_ok db \<longrightarrow> bucket_ok db0"
    and a_cases: "db0 = db \<or> (db0 = bucket_put ''Playlists'' (Sub []) db \<and> root = [])"
    by auto
  from CreateBucketIfNotExists_Inr [OF 2]
  have b: "nm \<noteq> []" "map_of root1 nm = Some (Sub c)" and b_ok: "bucket_ok root \<longrightarrow> bucket_ok root1"
    by auto
  have m: "map_of db1 ''Playlists'' = Some (Sub root1)"
    using 3 a by (simp add: map_of_bucket_replace)
  have root_ok: "store_ok db \<longrightarrow> bucket_ok root"
    using a_cases a
    by (auto simp: store_ok_def playlists_root_def Bucket_Bucket_def bucket_ok_def)
  have "store_ok db \<longrightarrow> bucket_ok db1 \<and> bucket_ok root1"
    using a_ok b_ok root_ok 3 by (auto simp: store_ok_def bucket_replace_ok)
  with b m show ?thesis by blast
qed

lemma update_again:
  assumes "nm \<noteq> []" "map_of db1 ''Playlists'' = Some (Sub root1)" "map_of root1 nm = Some (Sub c)"
  shows "CreatePlaylist_update db1 nm = Inr db1"
  using assms
  by (simp add: CreatePlaylist_update_def CreateBucketIfNotExists_present bucket_replace_same)

lemma bucket_keys_member: "map_of b k = Some (Sub c) \<Longrightarrow> bucket_ok b \<Longrightarrow> k \<in> set (bucket_keys b)"
  unfolding bucket_ok_def bucket_keys_def
proof (induction b)
  case Nil
  then show ?case by simp
next
  case (Cons kv b)
  obtain k' v' where kv: "kv = (k', v')" by (cases kv)
  show ?case
  proof (cases "k' = k")
    case True
    with Cons.prems kv show ?thesis by auto
  next
    case False
    with Cons kv show ?thesis by auto
  qed
qed

lemma Name_dir_entry_comp: "map (Name \<circ> dir_entry) xs = xs"
  by (induction xs) (auto simp: dir_entry_def)

lemma ListPlaylists_eq:
  "bolt_Open E = None \<Longrightarrow> ListPlaylists E db = (map dir_entry (bucket_keys (playlists_root db)), None)"
  by (simp add: ListPlaylists_def playlists_root_def loop_playlists bucket_keys_def split: option.splits)

lemma CreateBucketIfNotExists_total:
  assumes "key \<noteq> []" and "\<not> holds_value b key"
  shows "CreateBucketIfNotExists b key =
     Inr (if map_of b key = None then bucket_put key (Sub []) b else b,
          case Bucket_Bucket b key of None \<Rightarrow> [] | Some c \<Rightarrow> c)"
  using assms
  by (auto simp: CreateBucketIfNotExists_def holds_value_def Bucket_Get_def Bucket_Bucket_def
           split: option.splits node.splits)

lemma update_total:
  assumes "nm \<noteq> []" and "\<not> holds_value db ''Playlists''"
    and "\<not> holds_value (playlists_root db) nm"
  shows "CreatePlaylist_update db nm =
     Inr (bucket_replace ''Playlists''
            (Sub (if map_of (playlists_root db) nm = None
                  then bucket_put nm (Sub []) (playlists_root db) else playlists_root db))
            (if map_of db ''Playlists'' = None then bucket_put ''Playlists'' (Sub []) db else db))"
proof -
  have "''Playlists'' \<noteq> []" by simp
  note 1 = CreateBucketIfNotExists_total [OF this assms(2)]
  note 2 = CreateBucketIfNotExists_total [OF assms(1) assms(3)]
  show ?thesis
    unfolding CreatePlaylist_update_def 1
    using 2 by (simp add: playlists_root_def)
qed

lemma update_new_store:
  assumes "nm \<noteq> []" and "\<not> holds_value db ''Playlists''"
    and "\<not> holds_value (playlists_root db) nm"
    and "CreatePlaylist_update db nm = Inr db1"
  shows "(Bucket_Bucket (playlists_root db) nm \<noteq> None \<longrightarrow> db1 = db)
    \<and> (Bucket_Bucket (playlists_root db) nm = None \<longrightarrow> Bucket_Bucket (playlists_root db1) nm = Some [])
    \<and> (\<forall>k. k \<noteq> nm \<longrightarrow> map_of (playlists_root db1) k = map_of (playlists_root db) k)
    \<and> (\<forall>k. k \<noteq> ''Playlists'' \<longrightarrow> map_of db1 k = map_of db k)"
proof -
  define root where "root = playlists_root db"
  define root1 where "root1 = (if map_of root nm = None then bucket_put nm (Sub []) root else root)"
  define db0 where "db0 = (if map_of db ''Playlists'' = None then bucket_put ''Playlists'' (Sub []) db else db)"
  have db1: "db1 = bucket_replace ''Playlists'' (Sub root1) db0"
    using update_total [OF assms(1-3)] assms(4) by (simp add: root1_def db0_def root_def)
  have m0: "map_of db0 ''Playlists'' = Some (Sub root)"
    using assms(2)
    by (auto simp: db0_def root_def playlists_root_def holds_value_def Bucket_Get_def
          Bucket_Bucket_def map_of_bucket_put split: option.splits node.splits)
  have m1: "map_of db1 = (map_of db0)(''Playlists'' \<mapsto> Sub root1)"
    using m0 by (simp add: db1 map_of_bucket_replace)
  have pr: "playlists_root db1 = root1"
    by (simp add: playlists_root_def Bucket_Bucket_def m1)
  have others: "\<forall>k. k \<noteq> ''Playlists'' \<longrightarrow> map_of db1 k = map_of db k"
    by (simp add: m1 db0_def map_of_bucket_put)
  have inner: "\<forall>k. k \<noteq> nm \<longrightarrow> map_of root1 k = map_of root k"
    by (simp add: root1_def map_of_bucket_put)
  have fresh: "Bucket_Bucket root nm = None \<longrightarrow> Bucket_Bucket root1 nm = Some []"
    using assms(3)
    by (auto simp: root1_def root_def holds_value_def Bucket_Get_def Bucket_Bucket_def
          map_of_bucket_put split: option.splits node.splits)
  have same: "Bucket_Bucket root nm \<noteq> None \<longrightarrow> db1 = db"
  proof
    assume "Bucket_Bucket root nm \<noteq> None"
    then obtain c where c: "map_of root nm = Some (Sub c)"
      by (auto simp: Bucket_Bucket_def split: option.splits node.splits)
    then have r1: "root1 = root" by (simp add: root1_def)
    from c have "root \<noteq> []" by auto
    then have "map_of db ''Playlists'' = Some (Sub root)"
      by (auto simp: root_def playlists_root_def Bucket_Bucket_def split: option.splits node.splits)
    then show "db1 = db" by (simp add: db1 r1 db0_def bucket_replace_same)
  qed
  from same fresh inner others show ?thesis by (simp add: pr root_def)
qed

subsection \<open>Release, Attr and Open, case by case\<close>

lemma Release_drop:
  assumes "fh_r fh = Some fd" "fh_f fh = Some fp" "artist (heap w fp) = ''drop''"
  shows "FileHandle_Release E fh rf w =
     (if mPoint (heap w fp) = [] then (Panics IndexOutOfRange, do_Close fd w)
      else (Returns (case store_HandleDrop E (drop_path (mPoint (heap w fp)) (name (heap w fp))) of
                       Some err \<Rightarrow> Some err
                     | None \<Rightarrow> File_Close E fd),
            emit (Ev_HandleDrop (drop_path (mPoint (heap w fp)) (name (heap w fp)))) (do_Close fd w)))"
  using assms
  by (simp add: FileHandle_Release_def drop_path_def Let_def split: option.splits)







lemma Flush_by_descriptor:
  "FileHandle_Flush fh w =
     (case fh_r fh of
        None \<Rightarrow> (Returns (Some EIO), w)
      | Some fd \<Rightarrow> (Returns None, emit (Ev_Sync fd) w))"
  by (simp add: FileHandle_Flush_def)

lemma File_Attr_returns:
  "name (heap w fp) \<noteq> [] \<Longrightarrow> \<exists>r. fst (File_Attr E fp a w) = Returns r"
  by (simp add: File_Attr_def Let_def split: sum.splits)

lemma File_Open_returns:
  "name (heap w fp) \<noteq> [] \<Longrightarrow> \<exists>r. fst (File_Open E fp rq rs w) = Returns r"
  by (simp add: File_Open_def Let_def split: sum.splits)

subsection \<open>The claims about the store package\<close>

text \<open>
  C1. When the store opens and holds a record for song \<open>s\<close> under playlist \<open>p\<close> whose
  bytes deserialize to a value with path \<open>P\<close>, \<open>GetPlaylistFilePath p s m\<close> returns \<open>P\<close>
  and no error, for every mount root \<open>m\<close> and whatever the file system says about the
  fallback location (every \<open>os.Stat\<close> function \<open>st\<close>).
\<close>

theorem C1_recorded_path_returned:
  assumes "bolt_Open E = None"
    and "record_of db p s = Some songJson"
    and "json_Unmarshal E songJson = Inr file"
  shows "GetPlaylistFilePath (E\<lparr>os_Stat := st\<rparr>) db p s m = Returns (Path file, None)"
  using assms by (simp add: GetPlaylistFilePath_def view_record_of)

theorem C1_recorded_path_returned_witness:
  "bolt_Open ex_env = None
   \<and> record_of ex_db ''My_Mix'' ''track1'' = Some ex_doc
   \<and> json_Unmarshal ex_env ex_doc = Inr \<lparr>Path = ''/music/a.mp3''\<rparr>
   \<and> file_at ex_env ''/mnt/playlists/My_Mix/track1''
   \<and> GetPlaylistFilePath ex_env ex_db ''My_Mix'' ''track1'' ''/mnt'' = Returns (''/music/a.mp3'', None)
   \<and> GetPlaylistFilePath (ex_env\<lparr>os_Stat := \<lambda>path. Inl ENOENT\<rparr>) ex_db ''My_Mix'' ''track1'' ''''
       = Returns (''/music/a.mp3'', None)"
proof -
  have o: "bolt_Open ex_env = None" by (simp add: ex_env_def)
  have e: "ex_env\<lparr>os_Stat := os_Stat ex_env\<rparr> = ex_env" by simp
  note inst = C1_recorded_path_returned [OF o ex_record_track1 ex_Unmarshal_doc]
  show ?thesis
    using inst [of "os_Stat ex_env" "''/mnt''"] inst [of "\<lambda>path. Inl ENOENT" "''''"]
      o ex_record_track1 ex_Unmarshal_doc ex_file_at_track1
    by (simp only: e PlaylistFile.simps simp_thms)
qed

text \<open>
  C2 (as the code has it). When the store opens and holds a record for \<open>s\<close> under \<open>p\<close>
  whose bytes fail to deserialize, the error \<^verbatim>\<open>Cannot open song.\<close> of the read transaction
  is not returned: with a non-empty mount root, resolution goes on to the conventional
  location exactly as for a missing record, returning the fallback path when a file that
  is not a directory exists there and failing with \<^verbatim>\<open>File not exists.\<close> otherwise.
\<close>

theorem C2_undecodable_record_falls_back:
  assumes "bolt_Open E = None"
    and "record_of db p s = Some songJson"
    and "json_Unmarshal E songJson = Inl e"
    and "m \<noteq> []"
  shows "GetPlaylistFilePath_view E db p s = Inl (ErrorsNew ''Cannot open song.'')
    \<and> GetPlaylistFilePath E db p s m =
        (if file_at E (fallback_path m p s) then Returns (fallback_path m p s, None)
         else Returns ('''', Some (ErrorsNew ''File not exists.'')))"
proof -
  have v: "GetPlaylistFilePath_view E db p s = Inl (ErrorsNew ''Cannot open song.'')"
    using assms(2,3) by (simp add: view_record_of)
  from fallback_result [OF assms(1) _ assms(4), of db p s] v show ?thesis by simp
qed

text \<open>
  The claim C2 as stated fails: the record of \<^verbatim>\<open>broken\<close> does not deserialize, a file lies at
  the conventional location, and resolution returns that location without any error.
\<close>

theorem C2_unreadable_surfaced_counterexample:
  "record_of ex_db ''My_Mix'' ''broken'' = Some ''{''
   \<and> json_Unmarshal ex_env ''{'' = Inl (OtherError ''unexpected end of JSON input'')
   \<and> GetPlaylistFilePath ex_env ex_db ''My_Mix'' ''broken'' ''/mnt''
       = Returns (''/mnt/playlists/My_Mix/broken'', None)"
proof -
  have o: "bolt_Open ex_env = None" by (simp add: ex_env_def)
  have "GetPlaylistFilePath ex_env ex_db ''My_Mix'' ''broken'' ''/mnt''
       = Returns (''/mnt/playlists/My_Mix/broken'', None)"
    using fallback_result [of ex_env ex_db "''My_Mix''" "''broken''" "''/mnt''"] o
      ex_record_broken ex_Unmarshal_broken ex_file_at_broken
    by (simp add: view_record_of fallback_path_def)
  then show ?thesis using ex_record_broken ex_Unmarshal_broken by simp
qed

theorem C2_undecodable_record_falls_back_witness:
  "bolt_Open ex_env = None
   \<and> record_of ex_db ''My_Mix'' ''broken'' = Some ''{''
   \<and> json_Unmarshal ex_env ''{'' = Inl (OtherError ''unexpected end of JSON input'')
   \<and> GetPlaylistFilePath_view ex_env ex_db ''My_Mix'' ''broken'' = Inl (ErrorsNew ''Cannot open song.'')
   \<and> GetPlaylistFilePath ex_env ex_db ''My_Mix'' ''broken'' ''/mnt/''
       = Returns (''/mnt/playlists/My_Mix/broken'', None)"
proof -
  have o: "bolt_Open ex_env = None" by (simp add: ex_env_def)
  have m: "''/mnt/'' \<noteq> []" by simp
  show ?thesis
    using C2_undecodable_record_falls_back [OF o ex_record_broken ex_Unmarshal_broken m]
      o ex_record_broken ex_Unmarshal_broken ex_file_at_broken
    by (simp add: fallback_path_def)
qed

text \<open>
  C3 (as the code has it). When the store opens and holds no record for \<open>s\<close> under \<open>p\<close>
  and the mount root \<open>m\<close> is not empty, \<open>GetPlaylistFilePath p s m\<close> returns the fallback
  path \<^verbatim>\<open><m>/playlists/<p>/<s>\<close> (the trailing slash of \<open>m\<close> normalised) if and only if
  a file that is not a directory exists there, and otherwise fails with
  \<^verbatim>\<open>File not exists.\<close>
\<close>

theorem C3_no_record_fallback:
  assumes "bolt_Open E = None"
    and "record_of db p s = None"
    and "m \<noteq> []"
  shows "GetPlaylistFilePath E db p s m =
           (if file_at E (fallback_path m p s) then Returns (fallback_path m p s, None)
            else Returns ('''', Some (ErrorsNew ''File not exists.'')))
    \<and> (GetPlaylistFilePath E db p s m = Returns (fallback_path m p s, None))
         = file_at E (fallback_path m p s)"
  using fallback_result [OF assms(1) view_no_record [OF assms(2)] assms(3)] by simp

text \<open>
  The claim C3 as stated, for every mount root, fails at the empty mount root: the
  function indexes the last byte of the mount root and panics, returning neither the
  fallback path nor an error.
\<close>

theorem C3_empty_mount_root_counterexample:
  "bolt_Open ex_env = None
   \<and> record_of ex_db ''My_Mix'' ''dropped.mp3'' = None
   \<and> GetPlaylistFilePath ex_env ex_db ''My_Mix'' ''dropped.mp3'' '''' = Panics IndexOutOfRange"
proof -
  have o: "bolt_Open ex_env = None" by (simp add: ex_env_def)
  obtain e where "GetPlaylistFilePath_view ex_env ex_db ''My_Mix'' ''dropped.mp3'' = Inl e"
    using view_no_record [OF ex_record_dropped] by blast
  then have "GetPlaylistFilePath ex_env ex_db ''My_Mix'' ''dropped.mp3'' '''' = Panics IndexOutOfRange"
    using o by (simp add: GetPlaylistFilePath_def)
  then show ?thesis using o ex_record_dropped by simp
qed

theorem C3_no_record_fallback_witness:
  "bolt_Open ex_env = None
   \<and> record_of ex_db ''My_Mix'' ''dropped.mp3'' = None
   \<and> file_at ex_env ''/mnt/playlists/My_Mix/dropped.mp3''
   \<and> GetPlaylistFilePath ex_env ex_db ''My_Mix'' ''dropped.mp3'' ''/mnt''
       = Returns (''/mnt/playlists/My_Mix/dropped.mp3'', None)
   \<and> record_of ex_db ''My_Mix'' ''nosong'' = None
   \<and> GetPlaylistFilePath ex_env ex_db ''My_Mix'' ''nosong'' ''/mnt/''
       = Returns ('''', Some (ErrorsNew ''File not exists.''))
   \<and> record_of ex_db ''My_Mix'' ''sub'' = None
   \<and> GetPlaylistFilePath ex_env ex_db ''My_Mix'' ''sub'' ''/mnt''
       = Returns ('''', Some (ErrorsNew ''File not exists.''))"
proof -
  have o: "bolt_Open ex_env = None" by (simp add: ex_env_def)
  have m1: "''/mnt'' \<noteq> []" and m2: "''/mnt/'' \<noteq> []" by simp_all
  show ?thesis
    using C3_no_record_fallback [OF o ex_record_dropped m1]
      C3_no_record_fallback [OF o ex_record_nosong m2]
      C3_no_record_fallback [OF o ex_record_sub m1]
      o ex_record_dropped ex_record_nosong ex_record_sub
      ex_file_at_dropped ex_file_at_nosong ex_file_at_sub
    by (simp add: fallback_path_def)
qed

text \<open>
  C7 (as the code has it). When the store opens and the mount root \<open>m\<close> is not empty,
  \<open>ListPlaylistSongs p m\<close> returns first one file entry for each key of the bucket of \<open>p\<close>
  that holds a value, in the key order of the bucket (sorted, as bolt keeps it), and then
  one file entry for each entry of the directory \<^verbatim>\<open><m>/playlists/<p>/\<close> that is not a
  directory, in the order of the directory listing; nothing is removed, so a song that is
  in the store and on disk is listed (at least, and with distinct names exactly) twice.
\<close>

theorem C7_listing_store_then_disk:
  assumes "bolt_Open E = None" and "m \<noteq> []"
  shows "ListPlaylistSongs E db p m =
           Returns (map file_entry (value_keys (playlist_bucket db p))
                    @ map file_entry (plain_files (fst (ioutil_ReadDir E (playlist_dir m p)))), None)
    \<and> (bucket_ok (playlist_bucket db p) \<longrightarrow> sorted_wrt (<) (value_keys (playlist_bucket db p)))
    \<and> (s \<in> set (value_keys (playlist_bucket db p))
         \<and> s \<in> set (plain_files (fst (ioutil_ReadDir E (playlist_dir m p))))
       \<longrightarrow> 2 \<le> count_list
                (map file_entry (value_keys (playlist_bucket db p))
                 @ map file_entry (plain_files (fst (ioutil_ReadDir E (playlist_dir m p)))))
                (file_entry s))
    \<and> (s \<in> set (value_keys (playlist_bucket db p))
         \<and> s \<in> set (plain_files (fst (ioutil_ReadDir E (playlist_dir m p))))
         \<and> bucket_ok (playlist_bucket db p)
         \<and> distinct (plain_files (fst (ioutil_ReadDir E (playlist_dir m p))))
       \<longrightarrow> count_list
                (map file_entry (value_keys (playlist_bucket db p))
                 @ map file_entry (plain_files (fst (ioutil_ReadDir E (playlist_dir m p)))))
                (file_entry s) = 2)"
proof (intro conjI impI)
  show "ListPlaylistSongs E db p m =
           Returns (map file_entry (value_keys (playlist_bucket db p))
                    @ map file_entry (plain_files (fst (ioutil_ReadDir E (playlist_dir m p)))), None)"
    by (rule ListPlaylistSongs_eq [OF assms])
next
  assume "bucket_ok (playlist_bucket db p)"
  then show "sorted_wrt (<) (value_keys (playlist_bucket db p))" by (rule value_keys_sorted)
next
  assume "s \<in> set (value_keys (playlist_bucket db p))
         \<and> s \<in> set (plain_files (fst (ioutil_ReadDir E (playlist_dir m p))))"
  then show "2 \<le> count_list
                (map file_entry (value_keys (playlist_bucket db p))
                 @ map file_entry (plain_files (fst (ioutil_ReadDir E (playlist_dir m p)))))
                (file_entry s)"
    using count_list_member [of s "value_keys (playlist_bucket db p)"]
      count_list_member [of s "plain_files (fst (ioutil_ReadDir E (playlist_dir m p)))"]
    by (simp add: count_file_entry)
next
  assume a: "s \<in> set (value_keys (playlist_bucket db p))
         \<and> s \<in> set (plain_files (fst (ioutil_ReadDir E (playlist_dir m p))))
         \<and> bucket_ok (playlist_bucket db p)
         \<and> distinct (plain_files (fst (ioutil_ReadDir E (playlist_dir m p))))"
  then have "distinct (value_keys (playlist_bucket db p))"
    using value_keys_sorted strict_sorted_iff by blast
  with a show "count_list
                (map file_entry (value_keys (playlist_bucket db p))
                 @ map file_entry (plain_files (fst (ioutil_ReadDir E (playlist_dir m p)))))
                (file_entry s) = 2"
    by (simp add: count_file_entry count_list_distinct)
qed

text \<open>
  The claim C7 as stated, for every mount root, fails at the empty mount root, where the
  function panics after the database part and returns no listing.
\<close>

theorem C7_empty_mount_root_counterexample:
  "bolt_Open ex_env = None
   \<and> ListPlaylistSongs ex_env ex_db ''My_Mix'' '''' = Panics IndexOutOfRange"
  by (simp add: ListPlaylistSongs_def ex_env_def)

theorem C7_listing_store_then_disk_witness:
  "bolt_Open ex_env = None
   \<and> ListPlaylistSongs ex_env ex_db ''My_Mix'' ''/mnt'' =
       Returns ([file_entry ''broken'', file_entry ''track1'',
                 file_entry ''broken'', file_entry ''dropped.mp3'', file_entry ''track1''], None)
   \<and> bucket_ok (playlist_bucket ex_db ''My_Mix'')
   \<and> count_list [file_entry ''broken'', file_entry ''track1'',
                 file_entry ''broken'', file_entry ''dropped.mp3'', file_entry ''track1'']
        (file_entry ''track1'') = 2"
proof -
  have o: "bolt_Open ex_env = None" by (simp add: ex_env_def)
  have m: "''/mnt'' \<noteq> []" by simp
  have vk: "value_keys (playlist_bucket ex_db ''My_Mix'') = [''broken'', ''track1'']"
    by (simp add: ex_playlist_bucket value_keys_def)
  have pf: "plain_files (fst (ioutil_ReadDir ex_env (playlist_dir ''/mnt'' ''My_Mix'')))
              = [''broken'', ''dropped.mp3'', ''track1'']"
    by (simp add: playlist_dir_def ex_env_def ex_ReadDir_def ex_files_def plain_files_def)
  have ok: "bucket_ok (playlist_bucket ex_db ''My_Mix'')"
    by (simp add: ex_playlist_bucket bucket_ok_def)
  show ?thesis
    using C7_listing_store_then_disk [OF o m, of ex_db "''My_Mix''" "''track1''"] o ok
    by (simp add: vk pf)
qed

text \<open>
  C9 (as the code has it). Let the store open and commit, let the normalised name be
  non-empty (bolt refuses an empty bucket name), and let neither the key \<^verbatim>\<open>Playlists\<close> nor
  the key of the normalised name under it hold a plain value, on a store whose buckets
  are in key order. Then \<open>CreatePlaylist n m\<close> returns the normalised name without error
  and triggers one regeneration; it creates the empty bucket
  \<^verbatim>\<open>Playlists/<normalised n>\<close> when that is absent and changes nothing when it exists, and
  it changes no other key. A second call (in which the store again opens and commits)
  returns the same normalised name without error and leaves the store as it was, and the
  listing of the playlists shows the bucket exactly once. Whenever the store fails
  (opening it, the function of the transaction, or the commit), the call returns that
  error with an empty name, the store unchanged, and no regeneration of the playlist file
  is attempted.
\<close>

theorem C9_create_playlist_idempotent:
  "(store_ok db \<and> bolt_Open E = None \<and> tx_Commit E = None
      \<and> nm = getCompatibleString E n \<and> nm \<noteq> []
      \<and> \<not> holds_value db ''Playlists'' \<and> \<not> holds_value (playlists_root db) nm
      \<and> db1 = fst (snd (CreatePlaylist E db n m))
      \<and> bolt_Open E2 = None \<and> tx_Commit E2 = None
      \<and> getCompatibleString E2 = getCompatibleString E
    \<longrightarrow> CreatePlaylist E db n m = ((nm, None), db1, [(nm, m)])
        \<and> Bucket_Bucket (playlists_root db1) nm \<noteq> None
        \<and> (Bucket_Bucket (playlists_root db) nm \<noteq> None \<longrightarrow> db1 = db)
        \<and> (Bucket_Bucket (playlists_root db) nm = None
             \<longrightarrow> Bucket_Bucket (playlists_root db1) nm = Some [])
        \<and> (\<forall>k. k \<noteq> nm \<longrightarrow> map_of (playlists_root db1) k = map_of (playlists_root db) k)
        \<and> (\<forall>k. k \<noteq> ''Playlists'' \<longrightarrow> map_of db1 k = map_of db k)
        \<and> count_list (map Name (fst (ListPlaylists E2 db1))) nm = 1
        \<and> store_ok db1
        \<and> CreatePlaylist E2 db1 n m = ((nm, None), db1, [(nm, m)]))
   \<and> (bolt_Open E = Some err
        \<or> bolt_Open E = None
           \<and> fst (db_Update E db (\<lambda>tx. CreatePlaylist_update tx (getCompatibleString E n))) = Some err
      \<longrightarrow> CreatePlaylist E db n m = (('''', Some err), db, []))"
proof (intro conjI impI)
  assume "bolt_Open E = Some err
        \<or> bolt_Open E = None
           \<and> fst (db_Update E db (\<lambda>tx. CreatePlaylist_update tx (getCompatibleString E n))) = Some err"
  then show "CreatePlaylist E db n m = (('''', Some err), db, [])"
    by (auto simp: CreatePlaylist_def db_Update_def Let_def split: sum.splits option.splits)
next
  assume a: "store_ok db \<and> bolt_Open E = None \<and> tx_Commit E = None
      \<and> nm = getCompatibleString E n \<and> nm \<noteq> []
      \<and> \<not> holds_value db ''Playlists'' \<and> \<not> holds_value (playlists_root db) nm
      \<and> db1 = fst (snd (CreatePlaylist E db n m))
      \<and> bolt_Open E2 = None \<and> tx_Commit E2 = None
      \<and> getCompatibleString E2 = getCompatibleString E"
  then have ne: "nm \<noteq> []" and v1: "\<not> holds_value db ''Playlists''"
    and v2: "\<not> holds_value (playlists_root db) nm" and nm: "nm = getCompatibleString E n"
    by blast+
  from a have o1: "bolt_Open E = None" and c1: "tx_Commit E = None" and sk: "store_ok db"
    and o2: "bolt_Open E2 = None" and c2: "tx_Commit E2 = None"
    and g2: "getCompatibleString E2 = getCompatibleString E"
    and d1: "db1 = fst (snd (CreatePlaylist E db n m))"
    by blast+
  from update_total [OF ne v1 v2] obtain d where upd: "CreatePlaylist_update db nm = Inr d"
    by blast
  have first: "CreatePlaylist E db n m = ((nm, None), d, [(nm, m)])"
    using o1 c1 nm upd by (simp add: CreatePlaylist_def db_Update_def Let_def)
  with d1 have d: "d = db1" by simp
  from first d show "CreatePlaylist E db n m = ((nm, None), db1, [(nm, m)])" by simp
  note upd1 = upd [unfolded d]
  from update_Inr [OF upd1] sk obtain root1 c where
    r1: "map_of db1 ''Playlists'' = Some (Sub root1)"
    and r2: "map_of root1 nm = Some (Sub c)" and ok1: "bucket_ok db1" and ok2: "bucket_ok root1"
    by blast
  have pr: "playlists_root db1 = root1"
    using r1 by (simp add: playlists_root_def Bucket_Bucket_def)
  note new = update_new_store [OF ne v1 v2 upd1]
  show "Bucket_Bucket (playlists_root db) nm \<noteq> None \<Longrightarrow> db1 = db" using new by blast
  show "Bucket_Bucket (playlists_root db) nm = None
          \<Longrightarrow> Bucket_Bucket (playlists_root db1) nm = Some []" using new by blast
  show "\<forall>k. k \<noteq> nm \<longrightarrow> map_of (playlists_root db1) k = map_of (playlists_root db) k"
    using new by blast
  show "\<forall>k. k \<noteq> ''Playlists'' \<longrightarrow> map_of db1 k = map_of db k" using new by blast
  show "CreatePlaylist E2 db1 n m = ((nm, None), db1, [(nm, m)])"
    using o2 c2 g2 nm update_again [OF ne r1 r2]
    by (simp add: CreatePlaylist_def db_Update_def Let_def)
  show "Bucket_Bucket (playlists_root db1) nm \<noteq> None"
    using r2 by (simp add: pr Bucket_Bucket_def)
  show "store_ok db1" using ok1 ok2 by (simp add: store_ok_def pr)
  have "distinct (bucket_keys root1)"
    using bucket_keys_sorted [OF ok2] strict_sorted_iff by blast
  then have "count_list (bucket_keys root1) nm = 1"
    using bucket_keys_member [OF r2 ok2] by (simp add: count_list_distinct)
  then show "count_list (map Name (fst (ListPlaylists E2 db1))) nm = 1"
    using o2 by (simp add: ListPlaylists_eq pr Name_dir_entry_comp)
qed

text \<open>
  The claim C9 as stated, for every name, fails at a name whose normalised form is empty:
  bolt refuses the empty bucket name, so both calls return \<^verbatim>\<open>ErrBucketNameRequired\<close> (the
  first leaves the store unchanged, so the second is the same call) and no bucket of that
  name exists afterwards.
\<close>

theorem C9_empty_normalised_name_counterexample:
  "bolt_Open ex_env = None \<and> tx_Commit ex_env = None
   \<and> getCompatibleString ex_env '''' = ''''
   \<and> CreatePlaylist ex_env ex_other_db '''' ''/mnt''
       = (('''', Some ErrBucketNameRequired), ex_other_db, [])
   \<and> Bucket_Bucket (playlists_root ex_other_db) '''' = None"
proof -
  have "CreatePlaylist ex_env ex_other_db '''' ''/mnt''
       = (('''', Some ErrBucketNameRequired), ex_other_db, [])"
    using ex_compatible_empty ex_env_opens ex_other_update_empty_name
    by (simp add: CreatePlaylist_def db_Update_def Let_def)
  moreover have "Bucket_Bucket (playlists_root ex_other_db) '''' = None"
    by (simp add: ex_other_ok(4) Bucket_Bucket_def)
  ultimately show ?thesis using ex_compatible_empty ex_env_opens by blast
qed

theorem C9_create_playlist_idempotent_witness:
  "store_ok ex_other_db
   \<and> \<not> holds_value ex_other_db ''Playlists''
   \<and> \<not> holds_value (playlists_root ex_other_db) ''My_Mix''
   \<and> getCompatibleString ex_env ''My Mix'' = ''My_Mix''
   \<and> CreatePlaylist ex_env ex_other_db ''My Mix'' ''/mnt''
       = ((''My_Mix'', None),
          [(''Playlists'', Sub [(''My_Mix'', Sub []), (''Other'', Sub [(''track9'', Leaf ex_doc)])])],
          [(''My_Mix'', ''/mnt'')])
   \<and> CreatePlaylist ex_env
         [(''Playlists'', Sub [(''My_Mix'', Sub []), (''Other'', Sub [(''track9'', Leaf ex_doc)])])]
         ''My Mix'' ''/mnt''
       = ((''My_Mix'', None),
          [(''Playlists'', Sub [(''My_Mix'', Sub []), (''Other'', Sub [(''track9'', Leaf ex_doc)])])],
          [(''My_Mix'', ''/mnt'')])
   \<and> count_list (map Name (fst (ListPlaylists ex_env
         [(''Playlists'', Sub [(''My_Mix'', Sub []), (''Other'', Sub [(''track9'', Leaf ex_doc)])])])))
        ''My_Mix'' = 1
   \<and> CreatePlaylist (ex_env\<lparr>tx_Commit := Some (OtherError ''disk full'')\<rparr>) ex_other_db ''My Mix'' ''/mnt''
       = (('''', Some (OtherError ''disk full'')), ex_other_db, [])"
proof -
  define created where
    "created = [(''Playlists'', Sub [(''My_Mix'', Sub []), (''Other'', Sub [(''track9'', Leaf ex_doc)])])]"
  have first: "CreatePlaylist ex_env ex_other_db ''My Mix'' ''/mnt''
       = ((''My_Mix'', None), created, [(''My_Mix'', ''/mnt'')])"
    using ex_compatible_My_Mix ex_env_opens ex_other_update
    by (simp add: CreatePlaylist_def db_Update_def Let_def created_def)
  then have d1: "created = fst (snd (CreatePlaylist ex_env ex_other_db ''My Mix'' ''/mnt''))"
    by simp
  have ne: "''My_Mix'' \<noteq> []" by simp
  have nm: "''My_Mix'' = getCompatibleString ex_env ''My Mix''"
    using ex_compatible_My_Mix by simp
  have fails: "bolt_Open (ex_env\<lparr>tx_Commit := Some (OtherError ''disk full'')\<rparr>) = Some (OtherError ''disk full'')
     \<or> bolt_Open (ex_env\<lparr>tx_Commit := Some (OtherError ''disk full'')\<rparr>) = None
     \<and> fst (db_Update (ex_env\<lparr>tx_Commit := Some (OtherError ''disk full'')\<rparr>) ex_other_db
          (\<lambda>tx. CreatePlaylist_update tx
             (getCompatibleString (ex_env\<lparr>tx_Commit := Some (OtherError ''disk full'')\<rparr>) ''My Mix'')))
       = Some (OtherError ''disk full'')"
    using ex_compatible_My_Mix ex_other_update by (simp add: db_Update_def ex_env_def)
  have again: "CreatePlaylist ex_env created ''My Mix'' ''/mnt''
       = ((''My_Mix'', None), created, [(''My_Mix'', ''/mnt'')])
     \<and> count_list (map Name (fst (ListPlaylists ex_env created))) ''My_Mix'' = 1"
    using C9_create_playlist_idempotent
        [where db = ex_other_db and E = ex_env and n = "''My Mix''" and m = "''/mnt''"
           and nm = "''My_Mix''" and ?db1.0 = created and ?E2.0 = ex_env]
      ex_other_ok(1-3) ex_env_opens ne nm d1 by blast
  have failed: "CreatePlaylist (ex_env\<lparr>tx_Commit := Some (OtherError ''disk full'')\<rparr>) ex_other_db ''My Mix'' ''/mnt''
       = (('''', Some (OtherError ''disk full'')), ex_other_db, [])"
    using C9_create_playlist_idempotent
        [where db = ex_other_db and E = "ex_env\<lparr>tx_Commit := Some (OtherError ''disk full'')\<rparr>"
           and n = "''My Mix''" and m = "''/mnt''" and err = "OtherError ''disk full''"]
      fails by blast
  from ex_other_ok(1-3) ex_compatible_My_Mix first again failed show ?thesis
    unfolding created_def by blast
qed

subsection \<open>The claims about files and handles\<close>

text \<open>
  C4. \<open>Flush\<close> of a handle without descriptor on a \<^verbatim>\<open>.description\<close> file, evaluated:
  \<open>Open\<close> of a \<^verbatim>\<open>.description\<close> node returns a handle without descriptor, \<open>Release\<close> of
  that handle is a no-op that succeeds, and \<open>Flush\<close> of the same handle returns the I/O
  error \<open>EIO\<close>, where the claim has a no-op that succeeds.
\<close>

theorem C4_flush_description_handle_EIO:
  "name (heap ex_world 3) = ''.description''
   \<and> File_Open ex_fs 3 0 0 ex_world = (Returns (Some \<lparr>fh_r = None, fh_f = Some 3\<rparr>, None), 0, ex_world)
   \<and> FileHandle_Release ex_fs \<lparr>fh_r = None, fh_f = Some 3\<rparr> 0 ex_world = (Returns None, ex_world)
   \<and> FileHandle_Flush \<lparr>fh_r = None, fh_f = Some 3\<rparr> ex_world = (Returns (Some EIO), ex_world)"
  by (simp add: FileHandle_Flush_def FileHandle_Release_def File_Open_def ex_world_def
        ex_heap_simps ex_node_def)

text \<open>
  C5 (as the code has it). For every handle with a real descriptor on a node of the drop
  area, \<open>Release\<close> first closes the descriptor, which is closed afterwards in every case.
  When the mount root of the node is not empty, it then invokes the drop handler once, on
  \<^verbatim>\<open><mountRoot>/drop/<name>\<close>, and nothing else; it returns the error of the drop
  handler when that fails (the descriptor staying closed) and the result of the close
  otherwise.
\<close>

theorem C5_release_drop_closes_then_ingests:
  assumes "fh_r fh = Some fd" and "fh_f fh = Some fp" and "artist (heap w fp) = ''drop''"
  shows "fd \<notin> open_fds (snd (FileHandle_Release E fh rf w))
    \<and> take (Suc (length (trace w))) (trace (snd (FileHandle_Release E fh rf w))) = trace w @ [Ev_Close fd]
    \<and> (mPoint (heap w fp) \<noteq> [] \<longrightarrow>
         trace (snd (FileHandle_Release E fh rf w))
           = trace w @ [Ev_Close fd, Ev_HandleDrop (drop_path (mPoint (heap w fp)) (name (heap w fp)))]
         \<and> fst (FileHandle_Release E fh rf w)
           = Returns (case store_HandleDrop E (drop_path (mPoint (heap w fp)) (name (heap w fp))) of
                        Some err \<Rightarrow> Some err
                      | None \<Rightarrow> File_Close E fd))
    \<and> (mPoint (heap w fp) \<noteq> []
         \<and> store_HandleDrop E (drop_path (mPoint (heap w fp)) (name (heap w fp))) = Some err \<longrightarrow>
         fst (FileHandle_Release E fh rf w) = Returns (Some err)
         \<and> fd \<notin> open_fds (snd (FileHandle_Release E fh rf w)))"
  by (simp add: Release_drop [OF assms] do_Close_def emit_def)

text \<open>
  The claim C5 as stated, for every such handle, fails for a node with an empty mount
  root: \<open>Release\<close> closes the descriptor and then panics on indexing the mount root, so
  the drop handler is never invoked and no error is returned.
\<close>

theorem C5_empty_mount_root_counterexample:
  "artist (heap ex_world 6) = ''drop''
   \<and> mPoint (heap ex_world 6) = ''''
   \<and> fst (FileHandle_Release ex_fs \<lparr>fh_r = Some 7, fh_f = Some 6\<rparr> 0 ex_world) = Panics IndexOutOfRange
   \<and> trace (snd (FileHandle_Release ex_fs \<lparr>fh_r = Some 7, fh_f = Some 6\<rparr> 0 ex_world)) = [Ev_Close 7]"
proof -
  have a: "artist (heap ex_world 6) = ''drop''" and m: "mPoint (heap ex_world 6) = ''''"
    by (simp_all add: ex_world_def ex_heap_simps ex_node_def)
  have "FileHandle_Release ex_fs \<lparr>fh_r = Some 7, fh_f = Some 6\<rparr> 0 ex_world
          = (Panics IndexOutOfRange, do_Close 7 ex_world)"
    using a m by (simp add: Release_drop)
  then show ?thesis using a m by (simp add: do_Close_def emit_def ex_world_def)
qed

theorem C5_release_drop_closes_then_ingests_witness:
  "fh_r \<lparr>fh_r = Some 7, fh_f = Some 9\<rparr> = Some 7
   \<and> fh_f \<lparr>fh_r = Some 7, fh_f = Some 9\<rparr> = Some 9
   \<and> artist (heap ex_world 9) = ''drop''
   \<and> 7 \<in> open_fds ex_world
   \<and> store_HandleDrop ex_fs ''/mnt/drop/new.mp3'' = Some (OtherError ''no tags'')
   \<and> 7 \<notin> open_fds (snd (FileHandle_Release ex_fs \<lparr>fh_r = Some 7, fh_f = Some 9\<rparr> 0 ex_world))
   \<and> trace (snd (FileHandle_Release ex_fs \<lparr>fh_r = Some 7, fh_f = Some 9\<rparr> 0 ex_world))
       = [Ev_Close 7, Ev_HandleDrop ''/mnt/drop/new.mp3'']
   \<and> fst (FileHandle_Release ex_fs \<lparr>fh_r = Some 7, fh_f = Some 9\<rparr> 0 ex_world)
       = Returns (Some (OtherError ''no tags''))"
proof -
  have r: "fh_r \<lparr>fh_r = Some 7, fh_f = Some 9\<rparr> = Some 7"
    and f: "fh_f \<lparr>fh_r = Some 7, fh_f = Some 9\<rparr> = Some 9" by simp_all
  have a: "artist (heap ex_world 9) = ''drop''"
    by (simp add: ex_world_def ex_heap_simps ex_node_def)
  have m: "mPoint (heap ex_world 9) = ''/mnt''" and n: "name (heap ex_world 9) = ''new.mp3''"
    by (simp_all add: ex_world_def ex_heap_simps ex_node_def)
  have p: "drop_path ''/mnt'' ''new.mp3'' = ''/mnt/drop/new.mp3''" by (simp add: drop_path_def)
  have h: "store_HandleDrop ex_fs ''/mnt/drop/new.mp3'' = Some (OtherError ''no tags'')"
    by (simp add: ex_fs_def)
  have t: "trace ex_world = []" and o: "7 \<in> open_fds ex_world" by (simp_all add: ex_world_def)
  show ?thesis
    using C5_release_drop_closes_then_ingests [OF r f a, of ex_fs 0 "OtherError ''no tags''"] a h o
    by (simp add: m n p t)
qed



text \<open>
  C8. \<open>Open\<close> of a node whose name begins with a dot and is not \<^verbatim>\<open>.description\<close> fails
  with \<open>EPERM\<close>, returns no handle and does nothing else; \<open>Open\<close> of a node named
  \<^verbatim>\<open>.description\<close> succeeds with a handle that has no descriptor.
\<close>

theorem C8_open_dot_names:
  "(name (heap w fp) = CHR ''.'' # rest \<and> name (heap w fp) \<noteq> ''.description''
      \<longrightarrow> File_Open E fp rq rs w = (Returns (None, Some EPERM), rs, w))
   \<and> (name (heap w fp) = ''.description''
      \<longrightarrow> File_Open E fp rq rs w = (Returns (Some \<lparr>fh_r = None, fh_f = Some fp\<rparr>, None), rs, w))"
  by (simp add: File_Open_def Let_def)

theorem C8_open_dot_names_witness:
  "name (heap ex_world 5) = CHR ''.'' # ''hidden''
   \<and> name (heap ex_world 5) \<noteq> ''.description''
   \<and> File_Open ex_fs 5 0 0 ex_world = (Returns (None, Some EPERM), 0, ex_world)
   \<and> name (heap ex_world 3) = ''.description''
   \<and> File_Open ex_fs 3 0 0 ex_world = (Returns (Some \<lparr>fh_r = None, fh_f = Some 3\<rparr>, None), 0, ex_world)"
  using C8_open_dot_names [of ex_world 5 "''hidden''" ex_fs 0 0]
    C8_open_dot_names [of ex_world 3 "''description''" ex_fs 0 0]
  by (simp add: ex_world_def ex_heap_simps ex_node_def)

text \<open>
  C10. On a node with the empty name, \<open>Attr\<close> and \<open>Open\<close> return nothing, not even an
  error: they panic on indexing the first byte of the name, before any call to the store
  or the operating system and with nothing changed. On a node with a non-empty name
  both return.
\<close>

theorem C10_empty_name_panics:
  "(name (heap w fp) = []
      \<longrightarrow> File_Attr E fp a w = (Panics IndexOutOfRange, a, w)
        \<and> File_Open E fp rq rs w = (Panics IndexOutOfRange, rs, w))
   \<and> (name (heap w fp) \<noteq> []
      \<longrightarrow> (\<exists>r. fst (File_Attr E fp a w) = Returns r)
        \<and> (\<exists>r. fst (File_Open E fp rq rs w) = Returns r))"
  using File_Attr_returns File_Open_returns
  by (simp add: File_Attr_def File_Open_def Let_def)

theorem C10_empty_name_panics_witness:
  "name (heap ex_world 4) = []
   \<and> File_Attr ex_fs 4 \<lparr>Size = 0, Mode = 0\<rparr> ex_world = (Panics IndexOutOfRange, \<lparr>Size = 0, Mode = 0\<rparr>, ex_world)
   \<and> File_Open ex_fs 4 0 0 ex_world = (Panics IndexOutOfRange, 0, ex_world)
   \<and> name (heap ex_world 0) = ''bicycle.mp3''
   \<and> fst (File_Attr ex_fs 0 \<lparr>Size = 0, Mode = 0\<rparr> ex_world) = Returns None
   \<and> fst (File_Open ex_fs 0 0 0 ex_world) = Returns (Some \<lparr>fh_r = Some 8, fh_f = Some 0\<rparr>, None)"
proof -
  have n4: "name (heap ex_world 4) = []" and n0: "name (heap ex_world 0) = ''bicycle.mp3''"
    by (simp_all add: ex_world_def ex_heap_simps ex_node_def)
  have a0: "fst (File_Attr ex_fs 0 \<lparr>Size = 0, Mode = 0\<rparr> ex_world) = Returns None"
    by (simp add: File_Attr_def Let_def ex_world_def ex_heap_simps ex_node_def ex_fs_def)
  have o0: "fst (File_Open ex_fs 0 0 0 ex_world) = Returns (Some \<lparr>fh_r = Some 8, fh_f = Some 0\<rparr>, None)"
    by (simp add: File_Open_def Let_def ex_world_def ex_heap_simps ex_node_def ex_fs_def)
  show ?thesis
    using C10_empty_name_panics [of ex_world 4 ex_fs "\<lparr>Size = 0, Mode = 0\<rparr>" 0 0] n4 n0 a0 o0
    by simp
qed

end
